theory Spec2Isabelle
  imports Main
begin

section \<open>Python values, exceptions and sequences\<close>

text \<open>
  The module \<^verbatim>\<open>connectomics/model/unet.py\<close> builds a description of a network out of
  layer objects and threads a tensor through them. The embedding keeps the structure of
  the network (which layers, with which arguments, in which order) and the control flow
  of the constructor and of \<^verbatim>\<open>forward\<close>; the numeric content of the layers belongs to
  the tensor library and stays a parameter.

  An exception is a value of type \<open>error\<close>. The constructors name the exceptions that
  the code of \<^verbatim>\<open>unet.py\<close> itself can raise; \<open>Raised name\<close> is an exception
  that comes out of a call into code outside this file.
\<close>

datatype error =
    AssertionError
  | TypeError
  | KeyError
  | IndexError
  | AttributeError
  | Raised string

definition bindE :: "error + 'a \<Rightarrow> ('a \<Rightarrow> error + 'b) \<Rightarrow> error + 'b" where
  "bindE r f = (case r of Inl e \<Rightarrow> Inl e | Inr v \<Rightarrow> f v)"

text \<open>A call into code outside this file: it returns a value or raises.\<close>

definition external :: "string + 'a \<Rightarrow> error + 'a" where
  "external r = (case r of Inl name \<Rightarrow> Inl (Raised name) | Inr v \<Rightarrow> Inr v)"

text \<open>
  \<^verbatim>\<open>xs[i]\<close> on a Python list (and on \<^verbatim>\<open>nn.ModuleList\<close>): a negative index counts
  from the end, an index out of range raises \<^verbatim>\<open>IndexError\<close>.
\<close>

definition py_index :: "'a list \<Rightarrow> int \<Rightarrow> error + 'a" where
  "py_index xs i =
     (if 0 \<le> i \<and> i < int (length xs) then Inr (xs ! nat i)
      else if - int (length xs) \<le> i \<and> i < 0 then Inr (xs ! nat (int (length xs) + i))
      else Inl IndexError)"

text \<open>\<^verbatim>\<open>xs[i] = v\<close> on a Python list.\<close>

definition py_setitem :: "'a list \<Rightarrow> int \<Rightarrow> 'a \<Rightarrow> error + 'a list" where
  "py_setitem xs i v =
     (if 0 \<le> i \<and> i < int (length xs) then Inr (xs[nat i := v])
      else if - int (length xs) \<le> i \<and> i < 0 then Inr (xs[nat (int (length xs) + i) := v])
      else Inl IndexError)"

text \<open>\<^verbatim>\<open>range(n)\<close> and \<^verbatim>\<open>range(a, b)\<close>; both are empty when the bound is not above the start.\<close>

definition py_range :: "int \<Rightarrow> int list" where
  "py_range n = map int [0..<nat n]"

definition py_range2 :: "int \<Rightarrow> int \<Rightarrow> int list" where
  "py_range2 a b = map (\<lambda>k. a + int k) [0..<nat (b - a)]"

text \<open>
  The loops of the constructor start from an empty list and append one layer per index:
  \<^verbatim>\<open>for i in ...: layer = ...; self.down_layers.append(layer)\<close>.
\<close>

fun append_loop :: "(int \<Rightarrow> error + 'a) \<Rightarrow> int list \<Rightarrow> 'a list \<Rightarrow> error + 'a list" where
  "append_loop body [] acc = Inr acc"
| "append_loop body (i # ks) acc = bindE (body i) (\<lambda>layer. append_loop body ks (acc @ [layer]))"


section \<open>Layers\<close>

text \<open>
  A kernel size, stride or padding is an \<^verbatim>\<open>int\<close> or a tuple of three: the code
  returns \<^verbatim>\<open>1\<close>, \<^verbatim>\<open>2\<close> and \<^verbatim>\<open>(1,2,2)\<close> for strides and tuples for kernels.
\<close>

datatype dims = IntV int | Tuple3 int int int

text \<open>The two classes of \<^verbatim>\<open>block_dict\<close>; they are defined in \<^verbatim>\<open>block.py\<close>.\<close>

datatype block_cls = residual_block_3d | residual_se_block_3d

text \<open>
  A layer object is represented by the call that made it.
  \<^item> \<open>MaxPool3d kernel_size stride\<close>
  \<^item> \<open>conv3d_norm_act in_planes out_planes kernel_size stride padding pad_mode act_mode norm_mode\<close>,
    where \<open>stride\<close> is \<open>None\<close> when the call does not pass it;
  \<^item> \<open>Block cls in_planes out_planes pad_mode act_mode norm_mode\<close> for
    \<^verbatim>\<open>block(in, out, **shared_kwargs)\<close> with \<^verbatim>\<open>block = block_dict[block_type]\<close>;
  \<^item> \<open>Sequential layers\<close> for \<^verbatim>\<open>nn.Sequential(...)\<close>.
\<close>

datatype layer =
    Identity
  | MaxPool3d dims dims
  | conv3d_norm_act int int dims "dims option" dims string string string
  | Block block_cls int int string string string
  | Sequential "layer list"

definition block_dict :: "string \<rightharpoonup> block_cls" where
  "block_dict = [''residual'' \<mapsto> residual_block_3d, ''residual_se'' \<mapsto> residual_se_block_3d]"


section \<open>The helper methods of UNet3D\<close>

text \<open>
  The only attribute of \<^verbatim>\<open>self\<close> that \<^verbatim>\<open>_get_stride\<close> and
  \<^verbatim>\<open>_make_pooling_layer\<close> read is \<^verbatim>\<open>self.pooling\<close>, which the constructor has set
  before it calls them; it is their first argument here. \<^verbatim>\<open>_get_kernal_size\<close> and
  \<^verbatim>\<open>_get_downsample\<close> read nothing of \<^verbatim>\<open>self\<close>.
\<close>

definition get_kernal_size :: "bool \<Rightarrow> bool \<Rightarrow> dims \<times> dims" where
  "get_kernal_size is_iso io_layer =
     (if io_layer then
        (if is_iso then (Tuple3 5 5 5, Tuple3 2 2 2) else (Tuple3 1 5 5, Tuple3 0 2 2))
      else if is_iso then (Tuple3 3 3 3, Tuple3 1 1 1)
      else (Tuple3 1 3 3, Tuple3 0 1 1))"

definition get_downsample :: "bool \<Rightarrow> dims" where
  "get_downsample is_iso = (if \<not> is_iso then Tuple3 1 2 2 else IntV 2)"

definition get_stride :: "bool \<Rightarrow> bool \<Rightarrow> int \<Rightarrow> int \<Rightarrow> dims" where
  "get_stride self_pooling is_iso previous i =
     (if self_pooling \<or> previous = i then IntV 1 else get_downsample is_iso)"

definition make_pooling_layer :: "bool \<Rightarrow> bool \<Rightarrow> int \<Rightarrow> int \<Rightarrow> layer" where
  "make_pooling_layer self_pooling is_iso previous i =
     (if self_pooling \<and> previous \<noteq> i then
        (let kernel_size = get_downsample is_iso; stride = kernel_size
         in MaxPool3d kernel_size stride)
      else Identity)"


section \<open>The constructor of UNet3D\<close>

text \<open>The attributes that \<^verbatim>\<open>__init__\<close> assigns on \<^verbatim>\<open>self\<close>.\<close>

record unet3d =
  pooling :: bool
  output_act :: string
  depth :: int
  conv_in :: layer
  conv_out :: layer
  down_layers :: "layer list"
  up_layers :: "layer list list"

text \<open>
  The arguments of \<^verbatim>\<open>__init__\<close>. The fields \<open>pooling_arg\<close> and \<open>output_act_arg\<close>
  are the arguments \<^verbatim>\<open>pooling\<close> and \<^verbatim>\<open>output_act\<close>, renamed because the attributes
  of the object carry these names.
\<close>

record kwargs =
  block_type :: string
  in_channel :: int
  out_channel :: int
  filters :: "int list"
  is_isotropic :: bool
  isotropy :: "bool list"
  pad_mode :: string
  act_mode :: string
  norm_mode :: string
  head_depth :: int
  pooling_arg :: bool
  output_act_arg :: string

text \<open>The default values of the signature.\<close>

definition default_kwargs :: kwargs where
  "default_kwargs =
     \<lparr> block_type = ''residual'', in_channel = 1, out_channel = 3,
       filters = [28, 36, 48, 64, 80], is_isotropic = False,
       isotropy = [False, False, False, True, True],
       pad_mode = ''replicate'', act_mode = ''elu'', norm_mode = ''bn'',
       head_depth = 1, pooling_arg = False, output_act_arg = ''sigmoid'' \<rparr>"

text \<open>
  The constructors \<^verbatim>\<open>conv3d_norm_act\<close>, \<^verbatim>\<open>residual_block_3d\<close> and
  \<^verbatim>\<open>residual_se_block_3d\<close> live in \<^verbatim>\<open>block.py\<close> and \<^verbatim>\<open>model_init\<close> in
  \<^verbatim>\<open>utils.py\<close>; neither file is part of the sources at hand. Whether such a call raises
  is therefore a parameter: \<open>ctor_raises D l\<close> is the name of the exception raised by the
  constructor call \<open>l\<close> (or \<open>None\<close>), \<open>model_init_raises D m\<close> the same for
  \<^verbatim>\<open>model_init(self)\<close>. \<^verbatim>\<open>model_init\<close> sets the numeric weights, which this record
  of the structure does not hold.
\<close>

record deps =
  ctor_raises :: "layer \<Rightarrow> string option"
  model_init_raises :: "unet3d \<Rightarrow> string option"

definition new_module :: "deps \<Rightarrow> layer \<Rightarrow> error + layer" where
  "new_module D l = (case ctor_raises D l of None \<Rightarrow> Inr l | Some name \<Rightarrow> Inl (Raised name))"

definition model_init :: "deps \<Rightarrow> unet3d \<Rightarrow> error + unit" where
  "model_init D m = (case model_init_raises D m of None \<Rightarrow> Inr () | Some name \<Rightarrow> Inl (Raised name))"

text \<open>
  The body of the encoder loop (lines 77 to 84). \<^verbatim>\<open>isotropy[i]\<close> and \<^verbatim>\<open>filters[i]\<close>
  are read several times in the source; reading a list has no effect, so each is read
  once here. The arguments of \<^verbatim>\<open>nn.Sequential\<close> are evaluated from left to right.
\<close>

definition down_stage ::
  "deps \<Rightarrow> bool \<Rightarrow> block_cls \<Rightarrow> int list \<Rightarrow> bool list \<Rightarrow> string \<Rightarrow> string \<Rightarrow> string \<Rightarrow> int
     \<Rightarrow> error + layer" where
  "down_stage D self_pooling block fs isos pm am nm i =
     bindE (py_index isos i) (\<lambda>iso_i.
     case get_kernal_size iso_i False of (kernel_size, padding) \<Rightarrow>
     let previous = max 0 (i - 1);
         stride = get_stride self_pooling iso_i previous i;
         pool = make_pooling_layer self_pooling iso_i previous i
     in
     bindE (py_index fs previous) (\<lambda>f_prev.
     bindE (py_index fs i) (\<lambda>f_i.
     bindE (new_module D (conv3d_norm_act f_prev f_i kernel_size (Some stride) padding pm am nm)) (\<lambda>conv.
     bindE (new_module D (Block block f_i f_i pm am nm)) (\<lambda>blk.
     Inr (Sequential [pool, conv, blk]))))))"

text \<open>The body of the decoder loop (lines 91 to 95); the layer is an \<^verbatim>\<open>nn.ModuleList\<close> of two.\<close>

definition up_stage ::
  "deps \<Rightarrow> block_cls \<Rightarrow> int list \<Rightarrow> bool list \<Rightarrow> string \<Rightarrow> string \<Rightarrow> string \<Rightarrow> int
     \<Rightarrow> error + layer list" where
  "up_stage D block fs isos pm am nm j =
     bindE (py_index isos j) (\<lambda>iso_j.
     case get_kernal_size iso_j False of (kernel_size, padding) \<Rightarrow>
     bindE (py_index fs j) (\<lambda>f_j.
     bindE (py_index fs (j - 1)) (\<lambda>f_prev.
     bindE (new_module D (conv3d_norm_act f_j f_prev kernel_size None padding pm am nm)) (\<lambda>conv.
     bindE (new_module D (Block block f_prev f_prev pm am nm)) (\<lambda>blk.
     Inr [conv, blk])))))"

text \<open>
  \<^verbatim>\<open>UNet3D.__init__\<close>. Line 54 is \<^verbatim>\<open>isotropy = [True for _ in len(isotropy)]\<close>: the
  comprehension iterates over the integer \<^verbatim>\<open>len(isotropy)\<close>, and iterating over an
  \<^verbatim>\<open>int\<close> raises \<^verbatim>\<open>TypeError\<close>. \<^verbatim>\<open>filters[0]\<close> is read for \<^verbatim>\<open>conv_in\<close> and
  again for \<^verbatim>\<open>conv_out\<close>; the second read returns what the first did, so it is read
  once here. \<^verbatim>\<open>head_depth\<close> and \<^verbatim>\<open>**kwargs\<close> are not used.
\<close>

definition UNet3D_init :: "deps \<Rightarrow> kwargs \<Rightarrow> error + unet3d" where
  "UNet3D_init D a =
     (if length (filters a) \<noteq> length (isotropy a) then Inl AssertionError
      else
        bindE (if is_isotropic a then Inl TypeError else Inr (isotropy a)) (\<lambda>isos.
        let self_pooling = pooling_arg a;
            self_output_act = output_act_arg a;
            self_depth = int (length (filters a))
        in
        bindE (case block_dict (block_type a) of None \<Rightarrow> Inl KeyError | Some b \<Rightarrow> Inr b) (\<lambda>block.
        case get_kernal_size (is_isotropic a) True of (kernel_size_io, padding_io) \<Rightarrow>
        bindE (py_index (filters a) 0) (\<lambda>f0.
        bindE (new_module D (conv3d_norm_act (in_channel a) f0 kernel_size_io None padding_io
                 (pad_mode a) (act_mode a) (norm_mode a))) (\<lambda>self_conv_in.
        bindE (new_module D (conv3d_norm_act f0 (out_channel a) kernel_size_io None padding_io
                 (pad_mode a) ''none'' ''none'')) (\<lambda>self_conv_out.
        bindE (append_loop
                 (down_stage D self_pooling block (filters a) isos
                    (pad_mode a) (act_mode a) (norm_mode a))
                 (py_range self_depth) []) (\<lambda>self_down_layers.
        bindE (append_loop
                 (up_stage D block (filters a) isos (pad_mode a) (act_mode a) (norm_mode a))
                 (py_range2 1 self_depth) []) (\<lambda>self_up_layers.
        let self = \<lparr> pooling = self_pooling, output_act = self_output_act, depth = self_depth,
                     conv_in = self_conv_in, conv_out = self_conv_out,
                     down_layers = self_down_layers, up_layers = self_up_layers \<rparr>
        in bindE (model_init D self) (\<lambda>_. Inr self)))))))))"


section \<open>The forward pass of UNet3D\<close>

text \<open>
  What \<^verbatim>\<open>forward\<close> uses of the tensor library, over any type \<open>'t\<close> of tensors:
  calling a layer on a tensor, \<^verbatim>\<open>F.interpolate(x, size=, mode=, align_corners=)\<close>,
  \<^verbatim>\<open>y.shape\<close>, \<^verbatim>\<open>x + y\<close>, and \<^verbatim>\<open>get_functional_act\<close> of \<^verbatim>\<open>utils.py\<close>, which
  is not among the sources at hand. Each may raise; the left summand is the name of the
  exception.
\<close>

record 't tensor_lib =
  module_call :: "layer \<Rightarrow> 't \<Rightarrow> string + 't"
  F_interpolate :: "'t \<Rightarrow> int list \<Rightarrow> string \<Rightarrow> bool \<Rightarrow> string + 't"
  tensor_shape :: "'t \<Rightarrow> int list"
  tensor_add :: "'t \<Rightarrow> 't \<Rightarrow> string + 't"
  get_functional_act :: "string \<Rightarrow> string + ('t \<Rightarrow> string + 't)"

text \<open>
  A method is a computation on the object \<^verbatim>\<open>self\<close>: it takes the object, and returns a
  value or an exception together with the object as the method leaves it.
  \<open>attr f\<close> reads the attribute \<open>f\<close> of \<^verbatim>\<open>self\<close>, \<open>liftE r\<close> is a step that does not
  touch \<^verbatim>\<open>self\<close>.
\<close>

type_synonym ('s, 'a) prog = "'s \<Rightarrow> (error + 'a) \<times> 's"

definition returnS :: "'a \<Rightarrow> ('s, 'a) prog" where
  "returnS v = (\<lambda>s. (Inr v, s))"

definition bindS :: "('s, 'a) prog \<Rightarrow> ('a \<Rightarrow> ('s, 'b) prog) \<Rightarrow> ('s, 'b) prog" where
  "bindS p f = (\<lambda>s. case p s of (Inl e, s') \<Rightarrow> (Inl e, s') | (Inr v, s') \<Rightarrow> f v s')"

definition attr :: "('s \<Rightarrow> 'a) \<Rightarrow> ('s, 'a) prog" where
  "attr f = (\<lambda>s. (Inr (f s), s))"

definition liftE :: "error + 'a \<Rightarrow> ('s, 'a) prog" where
  "liftE r = (\<lambda>s. (r, s))"

text \<open>
  \<^verbatim>\<open>_upsample_add(self, x, y)\<close>. The second tensor comes out of the list \<^verbatim>\<open>down_x\<close>,
  whose slots start as \<^verbatim>\<open>None\<close>; \<^verbatim>\<open>None.shape\<close> raises \<^verbatim>\<open>AttributeError\<close>.
  \<^verbatim>\<open>y.shape[2:]\<close> drops the batch and channel axes.
\<close>

definition upsample_add :: "'t tensor_lib \<Rightarrow> 't \<Rightarrow> 't option \<Rightarrow> (unet3d, 't) prog" where
  "upsample_add T x y =
     bindS (attr pooling) (\<lambda>self_pooling.
     let align_corners = (if self_pooling then False else True) in
     bindS (liftE (case y of None \<Rightarrow> Inl AttributeError | Some t \<Rightarrow> Inr t)) (\<lambda>yt.
     bindS (liftE (external
              (F_interpolate T x (drop 2 (tensor_shape T yt)) ''trilinear'' align_corners))) (\<lambda>x'.
     liftE (external (tensor_add T x' yt)))))"

text \<open>The body of the first loop of \<^verbatim>\<open>forward\<close> (lines 107 and 108), and the loop.\<close>

definition enc_body ::
  "'t tensor_lib \<Rightarrow> int \<Rightarrow> 't \<times> 't option list \<Rightarrow> (unet3d, 't \<times> 't option list) prog" where
  "enc_body T i v =
     (case v of (x, down_x) \<Rightarrow>
        bindS (attr down_layers) (\<lambda>self_down_layers.
        bindS (liftE (py_index self_down_layers i)) (\<lambda>stage.
        bindS (liftE (external (module_call T stage x))) (\<lambda>x'.
        bindS (liftE (py_setitem down_x i (Some x'))) (\<lambda>down_x'.
        returnS (x', down_x'))))))"

fun enc_loop ::
  "'t tensor_lib \<Rightarrow> int list \<Rightarrow> 't \<times> 't option list \<Rightarrow> (unet3d, 't \<times> 't option list) prog" where
  "enc_loop T [] v = returnS v"
| "enc_loop T (i # ks) v = bindS (enc_body T i v) (\<lambda>v'. enc_loop T ks v')"

text \<open>The body of the second loop (lines 113 to 116), and the loop.\<close>

definition dec_body :: "'t tensor_lib \<Rightarrow> 't option list \<Rightarrow> int \<Rightarrow> 't \<Rightarrow> (unet3d, 't) prog" where
  "dec_body T down_x j x =
     bindS (attr depth) (\<lambda>self_depth.
     let i = self_depth - 2 - j in
     bindS (attr up_layers) (\<lambda>self_up_layers.
     bindS (liftE (py_index self_up_layers i)) (\<lambda>stage.
     bindS (liftE (py_index stage 0)) (\<lambda>conv.
     bindS (liftE (external (module_call T conv x))) (\<lambda>x1.
     bindS (liftE (py_index down_x i)) (\<lambda>y.
     bindS (upsample_add T x1 y) (\<lambda>x2.
     bindS (attr up_layers) (\<lambda>self_up_layers.
     bindS (liftE (py_index self_up_layers i)) (\<lambda>stage.
     bindS (liftE (py_index stage 1)) (\<lambda>blk.
     liftE (external (module_call T blk x2))))))))))))"

fun dec_loop :: "'t tensor_lib \<Rightarrow> 't option list \<Rightarrow> int list \<Rightarrow> 't \<Rightarrow> (unet3d, 't) prog" where
  "dec_loop T down_x [] x = returnS x"
| "dec_loop T down_x (j # ks) x = bindS (dec_body T down_x j x) (\<lambda>x'. dec_loop T down_x ks x')"

text \<open>\<^verbatim>\<open>forward(self, x)\<close>.\<close>

definition forward :: "'t tensor_lib \<Rightarrow> 't \<Rightarrow> (unet3d, 't) prog" where
  "forward T x =
     bindS (attr conv_in) (\<lambda>self_conv_in.
     bindS (liftE (external (module_call T self_conv_in x))) (\<lambda>x0.
     bindS (attr depth) (\<lambda>self_depth.
     let down_x = replicate (nat (self_depth - 1)) None in
     bindS (attr depth) (\<lambda>self_depth.
     bindS (enc_loop T (py_range (self_depth - 1)) (x0, down_x)) (\<lambda>v.
     case v of (x1, down_x) \<Rightarrow>
     bindS (attr down_layers) (\<lambda>self_down_layers.
     bindS (liftE (py_index self_down_layers (- 1))) (\<lambda>stage.
     bindS (liftE (external (module_call T stage x1))) (\<lambda>x2.
     bindS (attr depth) (\<lambda>self_depth.
     bindS (dec_loop T down_x (py_range (self_depth - 1)) x2) (\<lambda>x3.
     bindS (attr conv_out) (\<lambda>self_conv_out.
     bindS (liftE (external (module_call T self_conv_out x3))) (\<lambda>x4.
     bindS (attr output_act) (\<lambda>self_output_act.
     bindS (liftE (external (get_functional_act T self_output_act))) (\<lambda>act.
     liftE (external (act x4))))))))))))))))"


text \<open>A computation that leaves the object as it found it, whatever it returns.\<close>

definition preserves :: "('s, 'a) prog \<Rightarrow> bool" where
  "preserves p \<longleftrightarrow> (\<forall>s. snd (p s) = s)"


section \<open>The forward pass as a composition of stages\<close>

text \<open>
  The description of the forward pass as a sequential composition, written from the
  specification and not from the loops: the encoder stages in ascending order, each on
  the output of the one before, with all outputs kept;
\<close>

fun run_encoder :: "'t tensor_lib \<Rightarrow> layer list \<Rightarrow> 't \<Rightarrow> error + 't list" where
  "run_encoder T [] x = Inr []"
| "run_encoder T (l # ls) x =
     bindE (external (module_call T l x)) (\<lambda>y.
     bindE (run_encoder T ls y) (\<lambda>ys. Inr (y # ys)))"

text \<open>
  decoder stage \<open>i\<close>: the convolution \<^verbatim>\<open>up_layers[i][0]\<close>, the upsample-and-add with the
  stored output of encoder stage \<open>i\<close>, the block \<^verbatim>\<open>up_layers[i][1]\<close>;
\<close>

definition decoder_stage :: "'t tensor_lib \<Rightarrow> unet3d \<Rightarrow> nat \<Rightarrow> 't \<Rightarrow> 't \<Rightarrow> error + 't" where
  "decoder_stage T m i stored x =
     bindE (external (module_call T (up_layers m ! i ! 0) x)) (\<lambda>x1.
     bindE (fst (upsample_add T x1 (Some stored) m)) (\<lambda>x2.
     external (module_call T (up_layers m ! i ! 1) x2)))"

text \<open>the decoder stages \<open>n - 1\<close> down to \<open>0\<close>;\<close>

fun run_decoder :: "'t tensor_lib \<Rightarrow> unet3d \<Rightarrow> 't list \<Rightarrow> nat \<Rightarrow> 't \<Rightarrow> error + 't" where
  "run_decoder T m stored 0 x = Inr x"
| "run_decoder T m stored (Suc i) x =
     bindE (decoder_stage T m i (stored ! i) x) (\<lambda>x'. run_decoder T m stored i x')"

text \<open>
  and the whole, for a network of depth \<open>d\<close>: \<^verbatim>\<open>conv_in\<close>, the encoder stages \<open>0\<close> to
  \<open>d - 1\<close> (the outputs of stages \<open>0\<close> to \<open>d - 2\<close> are stored), the decoder stages
  \<open>d - 2\<close> down to \<open>0\<close>, \<^verbatim>\<open>conv_out\<close>, the output activation.
\<close>

definition sequential_composition :: "'t tensor_lib \<Rightarrow> unet3d \<Rightarrow> nat \<Rightarrow> 't \<Rightarrow> error + 't" where
  "sequential_composition T m d x =
     bindE (external (module_call T (conv_in m) x)) (\<lambda>x0.
     bindE (run_encoder T (take d (down_layers m)) x0) (\<lambda>outs.
     bindE (run_decoder T m (take (d - 1) outs) (d - 1) (outs ! (d - 1))) (\<lambda>x3.
     bindE (external (module_call T (conv_out m) x3)) (\<lambda>x4.
     bindE (external (get_functional_act T (output_act m))) (\<lambda>act.
     external (act x4))))))"


text \<open>
  The decoder with its skip connections written out, again from the specification:
  \<open>outs\<close> are the outputs of the encoder stages, and decoder stage \<open>i\<close>, after its
  convolution, upsamples with mode \<^verbatim>\<open>trilinear\<close> to the spatial size of \<open>outs[i]\<close>,
  adds \<open>outs[i]\<close> and applies its block. The stages run from \<open>n - 1\<close> down to \<open>0\<close>.
\<close>

fun skip_decoder :: "'t tensor_lib \<Rightarrow> unet3d \<Rightarrow> 't list \<Rightarrow> nat \<Rightarrow> 't \<Rightarrow> error + 't" where
  "skip_decoder T m outs 0 x = Inr x"
| "skip_decoder T m outs (Suc i) x =
     bindE (external (module_call T (up_layers m ! i ! 0) x)) (\<lambda>u.
     bindE (external (F_interpolate T u (drop 2 (tensor_shape T (outs ! i))) ''trilinear''
              (\<not> pooling m))) (\<lambda>w.
     bindE (external (tensor_add T w (outs ! i))) (\<lambda>s.
     bindE (external (module_call T (up_layers m ! i ! 1) s)) (\<lambda>x'.
     skip_decoder T m outs i x'))))"


section \<open>The constructor of UNet2D\<close>

text \<open>
  \<^verbatim>\<open>UNet2D.__init__(self)\<close> has no parameter besides \<^verbatim>\<open>self\<close> and its body is
  \<^verbatim>\<open>pass\<close>. A call \<^verbatim>\<open>UNet2D(...)\<close> with \<open>n\<close> positional arguments and the keyword
  arguments named \<open>kw\<close> raises \<^verbatim>\<open>TypeError\<close> unless there are none; the result is the
  list of the attributes that the constructor has assigned on \<^verbatim>\<open>self\<close>.
\<close>

definition UNet2D_init :: "nat \<Rightarrow> string list \<Rightarrow> error + string list" where
  "UNet2D_init n kw = (if n = 0 \<and> kw = [] then Inr [] else Inl TypeError)"


section \<open>Concrete inputs\<close>

text \<open>
  Constructors of layers that never raise, and a tensor library in which a tensor is
  known by its shape alone: the batch and channel counts and the spatial extents. Its
  layers keep the shape, interpolation sets the spatial extents to the requested size, and
  addition wants equal shapes.
\<close>

definition no_raise :: deps where
  "no_raise = \<lparr> ctor_raises = (\<lambda>l. None), model_init_raises = (\<lambda>m. None) \<rparr>"

definition shape_lib :: "((int \<times> int) \<times> int list) tensor_lib" where
  "shape_lib =
     \<lparr> module_call = (\<lambda>l t. Inr t),
       F_interpolate = (\<lambda>t size mode align_corners. Inr (fst t, size)),
       tensor_shape = (\<lambda>t. [fst (fst t), snd (fst t)] @ snd t),
       tensor_add = (\<lambda>x y. if x = y then Inr x else Inl ''RuntimeError''),
       get_functional_act = (\<lambda>name. Inr (\<lambda>t. Inr t)) \<rparr>"

text \<open>
  A library whose addition first checks that the spatial extents of its operands agree,
  and the documented behaviour of \<^verbatim>\<open>F.interpolate\<close>: the spatial extents of its result
  are the requested \<^verbatim>\<open>size\<close>.
\<close>

definition spatially_checked :: "'t tensor_lib \<Rightarrow> 't tensor_lib" where
  "spatially_checked T =
     T\<lparr> tensor_add := (\<lambda>x y.
           if drop 2 (tensor_shape T x) = drop 2 (tensor_shape T y) then tensor_add T x y
           else Inl ''RuntimeError'') \<rparr>"

definition interpolate_honours_size :: "'t tensor_lib \<Rightarrow> bool" where
  "interpolate_honours_size T \<longleftrightarrow>
     (\<forall>x size mode align_corners r.
        F_interpolate T x size mode align_corners = Inr r \<longrightarrow> drop 2 (tensor_shape T r) = size)"


section \<open>Basic facts\<close>

lemma bindE_Inl [simp]: "bindE (Inl e) f = Inl e"
  by (simp add: bindE_def)

lemma bindE_Inr [simp]: "bindE (Inr v) f = f v"
  by (simp add: bindE_def)

lemma bindE_eq_Inr: "bindE r f = Inr y \<longleftrightarrow> (\<exists>v. r = Inr v \<and> f v = Inr y)"
  by (cases r) simp_all

lemma bindS_attr [simp]: "bindS (attr f) g s = g (f s) s"
  by (simp add: bindS_def attr_def)

lemma bindS_liftE: "bindS (liftE r) g s = (case r of Inl e \<Rightarrow> (Inl e, s) | Inr v \<Rightarrow> g v s)"
  by (simp add: bindS_def liftE_def split: sum.splits)

lemma bindS_liftE_Inr [simp]: "bindS (liftE (Inr v)) g s = g v s"
  by (simp add: bindS_liftE)

lemma bindS_liftE_Inl [simp]: "bindS (liftE (Inl e)) g s = (Inl e, s)"
  by (simp add: bindS_liftE)

lemma bindS_returnS [simp]: "bindS (returnS v) g s = g v s"
  by (simp add: bindS_def returnS_def)

lemma liftE_apply: "liftE r s = (r, s)"
  by (simp add: liftE_def)

lemma returnS_apply: "returnS v s = (Inr v, s)"
  by (simp add: returnS_def)


section \<open>What a successful construction has built\<close>

lemma append_loop_Inr:
  "append_loop body ks acc = Inr r \<longleftrightarrow> (\<exists>ls. list_all2 (\<lambda>i l. body i = Inr l) ks ls \<and> r = acc @ ls)"
proof (induction ks arbitrary: acc)
  case Nil
  show ?case by auto
next
  case (Cons i ks)
  show ?case
    by (auto simp: bindE_eq_Inr Cons.IH list_all2_Cons1)
qed

lemma py_index_int: "i < length xs \<Longrightarrow> py_index xs (int i) = Inr (xs ! i)"
  by (simp add: py_index_def)

lemma py_index_0: "xs \<noteq> [] \<Longrightarrow> py_index xs 0 = Inr (xs ! 0)"
  by (simp add: py_index_def)

lemma py_index_0_Inr: "py_index xs 0 = Inr v \<longleftrightarrow> xs \<noteq> [] \<and> v = xs ! 0"
  by (auto simp: py_index_def split: if_splits)

lemma new_module_Inr: "new_module D l = Inr l' \<Longrightarrow> l' = l"
  by (simp add: new_module_def split: option.splits)

lemma down_stage_Inr:
  assumes "down_stage D p b fs isos pm am nm (int i) = Inr l"
    and "i < length fs" and "length isos = length fs"
  shows "l = Sequential
           [make_pooling_layer p (isos ! i) (max 0 (int i - 1)) (int i),
            conv3d_norm_act (fs ! nat (max 0 (int i - 1))) (fs ! i)
              (fst (get_kernal_size (isos ! i) False))
              (Some (get_stride p (isos ! i) (max 0 (int i - 1)) (int i)))
              (snd (get_kernal_size (isos ! i) False)) pm am nm,
            Block b (fs ! i) (fs ! i) pm am nm]"
proof -
  have prev: "py_index fs (max 0 (int i - 1)) = Inr (fs ! nat (max 0 (int i - 1)))"
    using assms(2) by (auto simp: py_index_def)
  show ?thesis
    using assms
    by (auto simp: down_stage_def py_index_int prev Let_def bindE_eq_Inr
          split: prod.splits dest!: new_module_Inr)
qed

lemma up_stage_Inr:
  assumes "up_stage D b fs isos pm am nm (int j) = Inr l"
    and "0 < j" and "j < length fs" and "length isos = length fs"
  shows "l = [conv3d_norm_act (fs ! j) (fs ! (j - 1))
                (fst (get_kernal_size (isos ! j) False)) None
                (snd (get_kernal_size (isos ! j) False)) pm am nm,
              Block b (fs ! (j - 1)) (fs ! (j - 1)) pm am nm]"
proof -
  have prev: "py_index fs (int j - 1) = Inr (fs ! (j - 1))"
    using assms(2,3) py_index_int [of "j - 1" fs] by (simp add: of_nat_diff)
  show ?thesis
    using assms
    by (auto simp: up_stage_def py_index_int prev bindE_eq_Inr
          split: prod.splits dest!: new_module_Inr)
qed

lemma UNet3D_init_Inr:
  assumes "UNet3D_init D a = Inr m"
  shows "length (isotropy a) = length (filters a) \<and> \<not> is_isotropic a \<and> filters a \<noteq> []
    \<and> (\<exists>b. block_dict (block_type a) = Some b
        \<and> pooling m = pooling_arg a
        \<and> output_act m = output_act_arg a
        \<and> depth m = int (length (filters a))
        \<and> conv_in m = conv3d_norm_act (in_channel a) (filters a ! 0) (Tuple3 1 5 5) None
             (Tuple3 0 2 2) (pad_mode a) (act_mode a) (norm_mode a)
        \<and> conv_out m = conv3d_norm_act (filters a ! 0) (out_channel a) (Tuple3 1 5 5) None
             (Tuple3 0 2 2) (pad_mode a) ''none'' ''none''
        \<and> list_all2 (\<lambda>i l. down_stage D (pooling_arg a) b (filters a) (isotropy a)
              (pad_mode a) (act_mode a) (norm_mode a) i = Inr l)
            (py_range (int (length (filters a)))) (down_layers m)
        \<and> list_all2 (\<lambda>j l. up_stage D b (filters a) (isotropy a)
              (pad_mode a) (act_mode a) (norm_mode a) j = Inr l)
            (py_range2 1 (int (length (filters a)))) (up_layers m))"
  using assms
  by (auto simp: UNet3D_init_def bindE_eq_Inr Let_def append_loop_Inr get_kernal_size_def
        model_init_def py_index_0_Inr
        split: if_splits option.splits dest!: new_module_Inr)


lemma init_down_layers:
  assumes "UNet3D_init D a = Inr m"
  shows "length (down_layers m) = length (filters a)"
    and "i < length (filters a) \<Longrightarrow>
         down_layers m ! i = Sequential
           [make_pooling_layer (pooling_arg a) (isotropy a ! i) (max 0 (int i - 1)) (int i),
            conv3d_norm_act (filters a ! nat (max 0 (int i - 1))) (filters a ! i)
              (fst (get_kernal_size (isotropy a ! i) False))
              (Some (get_stride (pooling_arg a) (isotropy a ! i) (max 0 (int i - 1)) (int i)))
              (snd (get_kernal_size (isotropy a ! i) False))
              (pad_mode a) (act_mode a) (norm_mode a),
            Block (the (block_dict (block_type a))) (filters a ! i) (filters a ! i)
              (pad_mode a) (act_mode a) (norm_mode a)]"
proof -
  from UNet3D_init_Inr [OF assms] obtain b where
    len: "length (isotropy a) = length (filters a)" and
    b: "block_dict (block_type a) = Some b" and
    all: "list_all2 (\<lambda>i l. down_stage D (pooling_arg a) b (filters a) (isotropy a)
              (pad_mode a) (act_mode a) (norm_mode a) i = Inr l)
            (py_range (int (length (filters a)))) (down_layers m)"
    by blast
  from all show "length (down_layers m) = length (filters a)"
    by (simp add: list_all2_conv_all_nth py_range_def)
  assume i: "i < length (filters a)"
  with all have "down_stage D (pooling_arg a) b (filters a) (isotropy a)
              (pad_mode a) (act_mode a) (norm_mode a) (int i) = Inr (down_layers m ! i)"
    by (simp add: list_all2_conv_all_nth py_range_def)
  from down_stage_Inr [OF this i len] b show "down_layers m ! i = Sequential
           [make_pooling_layer (pooling_arg a) (isotropy a ! i) (max 0 (int i - 1)) (int i),
            conv3d_norm_act (filters a ! nat (max 0 (int i - 1))) (filters a ! i)
              (fst (get_kernal_size (isotropy a ! i) False))
              (Some (get_stride (pooling_arg a) (isotropy a ! i) (max 0 (int i - 1)) (int i)))
              (snd (get_kernal_size (isotropy a ! i) False))
              (pad_mode a) (act_mode a) (norm_mode a),
            Block (the (block_dict (block_type a))) (filters a ! i) (filters a ! i)
              (pad_mode a) (act_mode a) (norm_mode a)]"
    by simp
qed

lemma init_up_layers:
  assumes "UNet3D_init D a = Inr m"
  shows "length (up_layers m) = length (filters a) - 1"
    and "k < length (filters a) - 1 \<Longrightarrow>
         up_layers m ! k =
           [conv3d_norm_act (filters a ! Suc k) (filters a ! k)
              (fst (get_kernal_size (isotropy a ! Suc k) False)) None
              (snd (get_kernal_size (isotropy a ! Suc k) False))
              (pad_mode a) (act_mode a) (norm_mode a),
            Block (the (block_dict (block_type a))) (filters a ! k) (filters a ! k)
              (pad_mode a) (act_mode a) (norm_mode a)]"
proof -
  from UNet3D_init_Inr [OF assms] obtain b where
    len: "length (isotropy a) = length (filters a)" and
    b: "block_dict (block_type a) = Some b" and
    all: "list_all2 (\<lambda>j l. up_stage D b (filters a) (isotropy a)
              (pad_mode a) (act_mode a) (norm_mode a) j = Inr l)
            (py_range2 1 (int (length (filters a)))) (up_layers m)"
    by blast
  have n: "nat (int (length (filters a)) - 1) = length (filters a) - 1"
    by simp
  from all show "length (up_layers m) = length (filters a) - 1"
    by (simp add: list_all2_conv_all_nth py_range2_def n)
  assume k: "k < length (filters a) - 1"
  with all have "up_stage D b (filters a) (isotropy a)
              (pad_mode a) (act_mode a) (norm_mode a) (1 + int k) = Inr (up_layers m ! k)"
    by (simp add: list_all2_conv_all_nth py_range2_def n)
  then have "up_stage D b (filters a) (isotropy a)
              (pad_mode a) (act_mode a) (norm_mode a) (int (Suc k)) = Inr (up_layers m ! k)"
    by (simp add: add.commute)
  from up_stage_Inr [OF this _ _ len] k b show "up_layers m ! k =
           [conv3d_norm_act (filters a ! Suc k) (filters a ! k)
              (fst (get_kernal_size (isotropy a ! Suc k) False)) None
              (snd (get_kernal_size (isotropy a ! Suc k) False))
              (pad_mode a) (act_mode a) (norm_mode a),
            Block (the (block_dict (block_type a))) (filters a ! k) (filters a ! k)
              (pad_mode a) (act_mode a) (norm_mode a)]"
    by simp
qed

lemma init_well_formed:
  assumes "UNet3D_init D a = Inr m"
  shows "depth m = int (length (filters a))" and "length (down_layers m) = length (filters a)"
    and "0 < length (filters a)" and "length (up_layers m) = length (filters a) - 1"
    and "\<forall>s \<in> set (up_layers m). length s = 2"
proof -
  from UNet3D_init_Inr [OF assms] show "depth m = int (length (filters a))"
    and "0 < length (filters a)" by auto
  show "length (down_layers m) = length (filters a)" by (rule init_down_layers [OF assms])
  show len: "length (up_layers m) = length (filters a) - 1" by (rule init_up_layers [OF assms])
  show "\<forall>s \<in> set (up_layers m). length s = 2"
  proof
    fix s assume "s \<in> set (up_layers m)"
    then obtain k where "k < length (up_layers m)" and "s = up_layers m ! k"
      by (auto simp: in_set_conv_nth)
    with len init_up_layers(2) [OF assms, of k] show "length s = 2" by simp
  qed
qed

lemma example_init: "\<exists>m. UNet3D_init no_raise default_kwargs = Inr m"
  by (simp add: UNet3D_init_def default_kwargs_def no_raise_def block_dict_def
        get_kernal_size_def py_index_def new_module_def py_range_def py_range2_def
        down_stage_def up_stage_def model_init_def upt_rec)



section \<open>The steps of the forward pass leave the model alone\<close>

lemma preserves_attr: "preserves (attr f)"
  by (simp add: preserves_def attr_def)

lemma preserves_liftE: "preserves (liftE r)"
  by (simp add: preserves_def liftE_def)

lemma preserves_returnS: "preserves (returnS v)"
  by (simp add: preserves_def returnS_def)

lemma preserves_bindS:
  assumes "preserves p" and "\<And>v. preserves (f v)"
  shows "preserves (bindS p f)"
  unfolding preserves_def
proof
  fix s
  from assms(1) have p: "snd (p s) = s" by (simp add: preserves_def)
  show "snd (bindS p f s) = s"
  proof (cases "fst (p s)")
    case (Inl e)
    with p show ?thesis by (cases "p s") (simp add: bindS_def)
  next
    case (Inr v)
    from assms(2) have "snd (f v s) = s" by (simp add: preserves_def)
    with p Inr show ?thesis by (cases "p s") (simp add: bindS_def)
  qed
qed

lemmas preserves_intros = preserves_bindS preserves_attr preserves_liftE preserves_returnS

lemma preserves_upsample_add: "preserves (upsample_add T x y)"
  unfolding upsample_add_def Let_def by (intro preserves_intros)

lemma preserves_enc_body: "preserves (enc_body T i v)"
  unfolding enc_body_def by (cases v) (simp, intro preserves_intros)

lemma preserves_enc_loop: "preserves (enc_loop T ks v)"
proof (induction ks arbitrary: v)
  case Nil
  show ?case by (simp add: preserves_returnS)
next
  case (Cons i ks)
  show ?case by (simp, intro preserves_bindS preserves_enc_body Cons.IH)
qed

lemma preserves_dec_body: "preserves (dec_body T down_x j x)"
  unfolding dec_body_def Let_def by (intro preserves_intros preserves_upsample_add)

lemma preserves_dec_loop: "preserves (dec_loop T down_x ks x)"
proof (induction ks arbitrary: x)
  case Nil
  show ?case by (simp add: preserves_returnS)
next
  case (Cons j ks)
  show ?case by (simp, intro preserves_bindS preserves_dec_body Cons.IH)
qed

lemma preserves_forward: "preserves (forward T x)"
  unfolding forward_def Let_def
  by (intro preserves_bindS preserves_attr preserves_liftE preserves_enc_loop
        preserves_dec_loop | simp only: split_def)+


section \<open>The loops of the forward pass, stage by stage\<close>

lemma py_setitem_int: "i < length xs \<Longrightarrow> py_setitem xs (int i) v = Inr (xs[i := v])"
  by (simp add: py_setitem_def)

lemma py_index_last: "xs \<noteq> [] \<Longrightarrow> py_index xs (- 1) = Inr (xs ! (length xs - 1))"
  by (cases xs) (simp_all add: py_index_def)

lemma bindS_pure:
  "p s = (r, s) \<Longrightarrow> bindS p f s = (case r of Inl e \<Rightarrow> (Inl e, s) | Inr v \<Rightarrow> f v s)"
  by (simp add: bindS_def split: sum.splits)

lemma upsample_add_pure: "upsample_add T x y m = (fst (upsample_add T x y m), m)"
  using preserves_upsample_add [of T x y] by (simp add: preserves_def prod_eq_iff)

lemma run_encoder_length: "run_encoder T ls x = Inr ys \<Longrightarrow> length ys = length ls"
  by (induction ls arbitrary: x ys) (auto simp: bindE_eq_Inr)

lemma run_encoder_snoc:
  "run_encoder T (ls @ [l]) x =
     bindE (run_encoder T ls x) (\<lambda>ys.
     bindE (external (module_call T l (last (x # ys)))) (\<lambda>z. Inr (ys @ [z])))"
proof (induction ls arbitrary: x)
  case Nil
  show ?case by (cases "external (module_call T l x)") simp_all
next
  case (Cons k ls)
  show ?case
  proof (cases "external (module_call T k x)")
    case (Inl e)
    then show ?thesis by simp
  next
    case (Inr y)
    show ?thesis
    proof (cases "run_encoder T ls y")
      case (Inl e)
      with Inr Cons.IH [of y] show ?thesis by simp
    next
      case ys: (Inr ys)
      show ?thesis
      proof (cases "external (module_call T l (last (y # ys)))")
        case (Inl e)
        with Inr ys Cons.IH [of y] show ?thesis by simp
      next
        case z: (Inr z)
        with Inr ys Cons.IH [of y] show ?thesis by simp
      qed
    qed
  qed
qed

lemma enc_body_in_range:
  assumes "i < length (down_layers m)" and "i < length dx"
  shows "enc_body T (int i) (x, dx) m =
           (bindE (external (module_call T (down_layers m ! i) x)) (\<lambda>y. Inr (y, dx[i := Some y])), m)"
  using assms
  by (cases "external (module_call T (down_layers m ! i) x)")
     (simp_all add: enc_body_def py_index_int py_setitem_int returnS_apply)

lemma enc_loop_run_encoder:
  assumes "k + n \<le> length (down_layers m)" and "k + n \<le> length dx"
  shows "enc_loop T (map int [k..<k + n]) (x, dx) m =
           (bindE (run_encoder T (take n (drop k (down_layers m))) x) (\<lambda>ys.
              Inr (last (x # ys), take k dx @ map Some ys @ drop (k + n) dx)), m)"
  using assms
proof (induction n arbitrary: k x dx)
  case 0
  show ?case by (simp add: returnS_apply)
next
  case (Suc n)
  from Suc.prems have k: "k < length (down_layers m)" "k < length dx" by simp_all
  have idx: "[k..<k + Suc n] = k # [Suc k..<Suc k + n]"
    by (simp add: upt_conv_Cons)
  have layers: "take (Suc n) (drop k (down_layers m)) =
                  down_layers m ! k # take n (drop (Suc k) (down_layers m))"
    using k(1) by (simp add: Cons_nth_drop_Suc [symmetric])
  have body: "\<And>f. bindS (enc_body T (int k) (x, dx)) f m =
      (case bindE (external (module_call T (down_layers m ! k) x)) (\<lambda>y. Inr (y, dx[k := Some y]))
       of Inl e \<Rightarrow> (Inl e, m) | Inr v \<Rightarrow> f v m)"
    by (rule bindS_pure) (rule enc_body_in_range [OF k])
  show ?case
  proof (cases "external (module_call T (down_layers m ! k) x)")
    case (Inl e)
    then show ?thesis
      by (simp only: idx list.map enc_loop.simps layers run_encoder.simps)
         (simp add: body)
  next
    case (Inr y)
    have ih: "enc_loop T (map int [Suc k..<Suc k + n]) (y, dx[k := Some y]) m =
           (bindE (run_encoder T (take n (drop (Suc k) (down_layers m))) y) (\<lambda>ys.
              Inr (last (y # ys),
                   take (Suc k) (dx[k := Some y]) @ map Some ys
                     @ drop (Suc k + n) (dx[k := Some y]))), m)"
      using Suc.prems by (intro Suc.IH) simp_all
    have upd: "take (Suc k) (dx[k := Some y]) = take k dx @ [Some y]"
      using k(2) by (simp add: take_Suc_conv_app_nth)
    have "enc_loop T (map int [k..<k + Suc n]) (x, dx) m =
            enc_loop T (map int [Suc k..<Suc k + n]) (y, dx[k := Some y]) m"
      using Inr by (simp only: idx list.map enc_loop.simps) (simp add: body)
    also note ih
    finally show ?thesis
      using Inr
      by (cases "run_encoder T (take n (drop (Suc k) (down_layers m))) y")
         (simp_all add: layers upd)
  qed
qed

lemma dec_body_in_range:
  assumes "depth m = int d" and "j + Suc i = d - 1" and "i < length (up_layers m)"
    and "length (up_layers m ! i) = 2" and "i < length dx" and "dx ! i = Some y"
  shows "dec_body T dx (int j) x m = (decoder_stage T m i y x, m)"
proof -
  have i: "int d - 2 - int j = int i"
    using assms(2) by linarith
  have one: "py_index (up_layers m ! i) 1 = Inr (up_layers m ! i ! 1)"
    using assms(4) py_index_int [of 1 "up_layers m ! i"] by simp
  have zero: "py_index (up_layers m ! i) 0 = Inr (up_layers m ! i ! 0)"
    using assms(4) py_index_int [of 0 "up_layers m ! i"] by simp
  have ups: "\<And>x1 f. bindS (upsample_add T x1 (Some y)) f m =
      (case fst (upsample_add T x1 (Some y) m) of Inl e \<Rightarrow> (Inl e, m) | Inr v \<Rightarrow> f v m)"
    by (rule bindS_pure) (rule upsample_add_pure)
  show ?thesis
  proof (cases "external (module_call T (up_layers m ! i ! 0) x)")
    case (Inl e)
    then show ?thesis
      using assms by (simp add: dec_body_def decoder_stage_def i py_index_int zero Let_def)
  next
    case (Inr x1)
    show ?thesis
    proof (cases "fst (upsample_add T x1 (Some y) m)")
      case (Inl e)
      then show ?thesis
        using assms Inr
        by (simp add: dec_body_def decoder_stage_def i py_index_int zero Let_def ups)
    next
      case x2: (Inr x2)
      then show ?thesis
        using assms Inr
        by (simp add: dec_body_def decoder_stage_def i py_index_int zero one Let_def ups
              liftE_apply)
    qed
  qed
qed

lemma dec_loop_run_decoder:
  assumes "depth m = int d" and "j0 + n = d - 1" and "length (up_layers m) = d - 1"
    and "\<forall>s \<in> set (up_layers m). length s = 2" and "length ys = d - 1"
  shows "dec_loop T (map Some ys) (map int [j0..<j0 + n]) x m = (run_decoder T m ys n x, m)"
  using assms(2)
proof (induction n arbitrary: j0 x)
  case 0
  show ?case by (simp add: returnS_apply)
next
  case (Suc n)
  have idx: "[j0..<j0 + Suc n] = j0 # [Suc j0..<Suc j0 + n]"
    by (simp add: upt_conv_Cons)
  from Suc.prems have n: "n < d - 1" by simp
  have body: "dec_body T (map Some ys) (int j0) x m = (decoder_stage T m n (ys ! n) x, m)"
    using assms(1,3,4,5) Suc.prems n by (intro dec_body_in_range [where d = d]) simp_all
  have ih: "\<And>x'. dec_loop T (map Some ys) (map int [Suc j0..<Suc j0 + n]) x' m =
                  (run_decoder T m ys n x', m)"
    using Suc.prems by (intro Suc.IH) simp
  have step: "\<And>f. bindS (dec_body T (map Some ys) (int j0) x) f m =
      (case decoder_stage T m n (ys ! n) x of Inl e \<Rightarrow> (Inl e, m) | Inr v \<Rightarrow> f v m)"
    by (rule bindS_pure) (rule body)
  have "dec_loop T (map Some ys) (map int [j0..<j0 + Suc n]) x m =
          (case decoder_stage T m n (ys ! n) x of Inl e \<Rightarrow> (Inl e, m)
           | Inr v \<Rightarrow> dec_loop T (map Some ys) (map int [Suc j0..<Suc j0 + n]) v m)"
    by (simp only: idx list.map dec_loop.simps step)
  also have "\<dots> = (case decoder_stage T m n (ys ! n) x of Inl e \<Rightarrow> (Inl e, m)
           | Inr v \<Rightarrow> (run_decoder T m ys n v, m))"
    by (simp only: ih)
  also have "\<dots> = (run_decoder T m ys (Suc n) x, m)"
    by (cases "decoder_stage T m n (ys ! n) x") simp_all
  finally show ?case .
qed


lemma forward_sequential_composition:
  assumes d: "depth m = int d" and dl: "length (down_layers m) = d" and pos: "0 < d"
    and ul: "length (up_layers m) = d - 1" and two: "\<forall>s \<in> set (up_layers m). length s = 2"
  shows "forward T x m = (sequential_composition T m d x, m)"
proof (cases "external (module_call T (conv_in m) x)")
  case (Inl e)
  then show ?thesis by (simp add: forward_def sequential_composition_def)
next
  case x0: (Inr x0)
  from pos obtain n where n: "d = Suc n" by (cases d) simp_all
  let ?front = "take n (down_layers m)"
  let ?final = "down_layers m ! n"
  have range: "py_range (depth m - 1) = map int [0..<n]"
    using d n by (simp add: py_range_def)
  have rep: "nat (depth m - 1) = n"
    using d n by simp
  have enc: "enc_loop T (map int [0..<n]) (x0, replicate n None) m =
      (bindE (run_encoder T ?front x0) (\<lambda>ys. Inr (last (x0 # ys), map Some ys)), m)"
    using enc_loop_run_encoder [of 0 n m "replicate n None" T x0] dl n by simp
  have encS: "\<And>f. bindS (enc_loop T (map int [0..<n]) (x0, replicate n None)) f m =
      (case bindE (run_encoder T ?front x0) (\<lambda>ys. Inr (last (x0 # ys), map Some ys))
       of Inl e \<Rightarrow> (Inl e, m) | Inr v \<Rightarrow> f v m)"
    by (rule bindS_pure) (rule enc)
  have layers: "take (Suc n) (down_layers m) = ?front @ [?final]"
    using dl n take_Suc_conv_app_nth [of n "down_layers m"] by simp
  have final: "py_index (down_layers m) (- 1) = Inr ?final"
  proof -
    have "down_layers m \<noteq> []" using dl n by auto
    then show ?thesis using py_index_last [of "down_layers m"] dl n by simp
  qed
  show ?thesis
  proof (cases "run_encoder T ?front x0")
    case (Inl e)
    then show ?thesis
      using x0
      by (simp add: forward_def sequential_composition_def range rep encS layers
            run_encoder_snoc n)
  next
    case ys: (Inr ys)
    then have len: "length ys = n"
      using run_encoder_length [of T ?front x0 ys] dl n by simp
    show ?thesis
    proof (cases "external (module_call T ?final (last (x0 # ys)))")
      case (Inl e)
      then show ?thesis
        using x0 ys
        by (simp add: forward_def sequential_composition_def range rep encS layers
              run_encoder_snoc final n)
    next
      case z: (Inr z)
      have dec: "dec_loop T (map Some ys) (map int [0..<n]) z m =
                   (run_decoder T m ys n z, m)"
        using dec_loop_run_decoder [of m d 0 n ys T z] d ul two len n by simp
      have decS: "\<And>f. bindS (dec_loop T (map Some ys) (map int [0..<n]) z) f m =
          (case run_decoder T m ys n z of Inl e \<Rightarrow> (Inl e, m) | Inr v \<Rightarrow> f v m)"
        by (rule bindS_pure) (rule dec)
      have outs: "take n (ys @ [z]) = ys" "(ys @ [z]) ! n = z"
        using len by (simp_all add: nth_append)
      show ?thesis
        using x0 ys z
        by (simp add: forward_def sequential_composition_def range rep encS layers
              run_encoder_snoc final decS outs n len bindS_liftE liftE_apply
              split: sum.splits)
    qed
  qed
qed


section \<open>The upsample-and-add step, and where the constructor cannot fail\<close>

lemma bindE_assoc: "bindE (bindE r f) g = bindE r (\<lambda>v. bindE (f v) g)"
  by (cases r) simp_all

lemma upsample_add_Some:
  "upsample_add T x (Some y) m =
     (bindE (external (F_interpolate T x (drop 2 (tensor_shape T y)) ''trilinear'' (\<not> pooling m)))
        (\<lambda>w. external (tensor_add T w y)), m)"
proof (cases "pooling m")
  case True
  then show ?thesis
    by (cases "external (F_interpolate T x (drop 2 (tensor_shape T y)) ''trilinear'' False)")
       (simp_all add: upsample_add_def liftE_apply)
next
  case False
  then show ?thesis
    by (cases "external (F_interpolate T x (drop 2 (tensor_shape T y)) ''trilinear'' True)")
       (simp_all add: upsample_add_def liftE_apply)
qed

lemma bindE_not_assert:
  assumes "r \<noteq> Inl AssertionError" and "\<And>v. f v \<noteq> Inl AssertionError"
  shows "bindE r f \<noteq> Inl AssertionError"
  using assms by (cases r) simp_all

lemma py_index_not_assert: "py_index xs i \<noteq> Inl AssertionError"
  by (simp add: py_index_def)

lemma new_module_not_assert: "new_module D l \<noteq> Inl AssertionError"
  by (simp add: new_module_def split: option.splits)

lemma model_init_not_assert: "model_init D m \<noteq> Inl AssertionError"
  by (simp add: model_init_def split: option.splits)

lemma append_loop_not_assert:
  assumes "\<And>i. body i \<noteq> Inl AssertionError"
  shows "append_loop body ks acc \<noteq> Inl AssertionError"
proof (induction ks arbitrary: acc)
  case Nil
  show ?case by simp
next
  case (Cons i ks)
  show ?case by (simp only: append_loop.simps) (intro bindE_not_assert assms Cons.IH)
qed

lemma down_stage_not_assert: "down_stage D p b fs isos pm am nm i \<noteq> Inl AssertionError"
  unfolding down_stage_def Let_def split_def
  by (intro bindE_not_assert py_index_not_assert new_module_not_assert) simp

lemma up_stage_not_assert: "up_stage D b fs isos pm am nm j \<noteq> Inl AssertionError"
  unfolding up_stage_def split_def
  by (intro bindE_not_assert py_index_not_assert new_module_not_assert) simp

lemma example_init_pooling:
  "\<exists>m. UNet3D_init no_raise (default_kwargs\<lparr> pooling_arg := True \<rparr>) = Inr m"
  by (simp add: UNet3D_init_def default_kwargs_def no_raise_def block_dict_def
        get_kernal_size_def py_index_def new_module_def py_range_def py_range2_def
        down_stage_def up_stage_def model_init_def upt_rec)

lemma run_encoder_shape_lib: "run_encoder shape_lib ls x = Inr (replicate (length ls) x)"
  by (induction ls) (simp_all add: shape_lib_def external_def)


lemma run_decoder_skip_decoder:
  "n \<le> k \<Longrightarrow> run_decoder T m (take k outs) n x = skip_decoder T m outs n x"
proof (induction n arbitrary: x)
  case 0
  show ?case by simp
next
  case (Suc n)
  then have n: "n < k" and le: "n \<le> k" by simp_all
  have ih: "run_decoder T m (take k outs) n = skip_decoder T m outs n"
    by (rule ext) (rule Suc.IH [OF le])
  show ?case
    by (simp add: decoder_stage_def upsample_add_Some bindE_assoc n ih)
qed

lemma skip_decoder_shape_lib:
  "n \<le> k \<Longrightarrow> skip_decoder shape_lib m (replicate k x) n x = Inr x"
  by (induction n) (simp_all add: shape_lib_def external_def)


section \<open>The forward pass is the composition of its stages\<close>

text \<open>
  Claim C3. For every constructed network of depth \<open>d = len(filters)\<close>, every tensor
  library and every input, what \<^verbatim>\<open>forward\<close> returns (or raises) is what the sequential
  composition returns (or raises): \<^verbatim>\<open>conv_in\<close>, the encoder stages \<open>0\<close> to \<open>d - 1\<close>
  in ascending order with the outputs of stages \<open>0\<close> to \<open>d - 2\<close> stored, then for
  \<open>i = d - 2\<close> down to \<open>0\<close> the convolution \<^verbatim>\<open>up_layers[i][0]\<close>, the upsample-and-add
  with the stored output \<open>i\<close> and the block \<^verbatim>\<open>up_layers[i][1]\<close>, then \<^verbatim>\<open>conv_out\<close> and
  the activation named by \<^verbatim>\<open>output_act\<close>.
\<close>

theorem forward_is_sequential_composition:
  assumes "UNet3D_init D a = Inr m"
  shows "fst (forward T x m) = sequential_composition T m (length (filters a)) x"
  using forward_sequential_composition [OF init_well_formed [OF assms], of T x] by simp

theorem forward_is_sequential_composition_witness:
  "\<exists>m. UNet3D_init no_raise default_kwargs = Inr m
     \<and> fst (forward shape_lib ((1, 1), [9, 65, 65]) m) =
         sequential_composition shape_lib m 5 ((1, 1), [9, 65, 65])"
proof -
  from example_init obtain m where h: "UNet3D_init no_raise default_kwargs = Inr m" ..
  have len: "length (filters default_kwargs) = 5" by (simp add: default_kwargs_def)
  from forward_is_sequential_composition [OF h, of shape_lib "((1, 1), [9, 65, 65])", unfolded len] h show ?thesis
    by blast
qed


section \<open>The encoder stage list\<close>

text \<open>
  Claim C4. After a construction that succeeds, \<^verbatim>\<open>down_layers\<close> has exactly
  \<open>len(filters)\<close> stages, and stage \<open>i\<close> is the sequence of the pooling layer (a
  \<^verbatim>\<open>MaxPool3d\<close> or the identity), a \<^verbatim>\<open>conv3d_norm_act\<close> from \<open>filters[max(0,i-1)]\<close> to
  \<open>filters[i]\<close> channels and a block on \<open>filters[i]\<close> channels; for stage \<open>0\<close> the
  pooling layer is the identity and the stride is 1.
\<close>

theorem down_layers_structure:
  assumes "UNet3D_init D a = Inr m"
  shows "length (down_layers m) = length (filters a)
     \<and> (\<forall>i < length (filters a).
          down_layers m ! i = Sequential
           [make_pooling_layer (pooling_arg a) (isotropy a ! i) (max 0 (int i - 1)) (int i),
            conv3d_norm_act (filters a ! nat (max 0 (int i - 1))) (filters a ! i)
              (fst (get_kernal_size (isotropy a ! i) False))
              (Some (get_stride (pooling_arg a) (isotropy a ! i) (max 0 (int i - 1)) (int i)))
              (snd (get_kernal_size (isotropy a ! i) False))
              (pad_mode a) (act_mode a) (norm_mode a),
            Block (the (block_dict (block_type a))) (filters a ! i) (filters a ! i)
              (pad_mode a) (act_mode a) (norm_mode a)])
     \<and> make_pooling_layer (pooling_arg a) (isotropy a ! 0) (max 0 (int 0 - 1)) (int 0) = Identity
     \<and> get_stride (pooling_arg a) (isotropy a ! 0) (max 0 (int 0 - 1)) (int 0) = IntV 1"
  using init_down_layers [OF assms]
  by (simp add: make_pooling_layer_def get_stride_def)

theorem down_layers_structure_witness:
  "\<exists>m. UNet3D_init no_raise default_kwargs = Inr m
     \<and> length (down_layers m) = 5
     \<and> down_layers m ! 3 = Sequential
          [Identity,
           conv3d_norm_act 48 64 (Tuple3 3 3 3) (Some (IntV 2)) (Tuple3 1 1 1)
             ''replicate'' ''elu'' ''bn'',
           Block residual_block_3d 64 64 ''replicate'' ''elu'' ''bn'']"
proof -
  from example_init obtain m where h: "UNet3D_init no_raise default_kwargs = Inr m" ..
  from down_layers_structure [OF h] have "length (down_layers m) = length (filters default_kwargs)"
    and "down_layers m ! 3 = Sequential
           [make_pooling_layer (pooling_arg default_kwargs) (isotropy default_kwargs ! 3)
              (max 0 (int 3 - 1)) (int 3),
            conv3d_norm_act (filters default_kwargs ! nat (max 0 (int 3 - 1)))
              (filters default_kwargs ! 3)
              (fst (get_kernal_size (isotropy default_kwargs ! 3) False))
              (Some (get_stride (pooling_arg default_kwargs) (isotropy default_kwargs ! 3)
                 (max 0 (int 3 - 1)) (int 3)))
              (snd (get_kernal_size (isotropy default_kwargs ! 3) False))
              (pad_mode default_kwargs) (act_mode default_kwargs) (norm_mode default_kwargs),
            Block (the (block_dict (block_type default_kwargs))) (filters default_kwargs ! 3)
              (filters default_kwargs ! 3)
              (pad_mode default_kwargs) (act_mode default_kwargs) (norm_mode default_kwargs)]"
    by (simp_all add: default_kwargs_def)
  with h show ?thesis
    by (simp add: default_kwargs_def make_pooling_layer_def get_stride_def get_kernal_size_def
          get_downsample_def block_dict_def)
qed


section \<open>The decoder stage list and the skip connections\<close>

text \<open>
  Claim C5. After a construction that succeeds, \<^verbatim>\<open>up_layers\<close> has exactly
  \<open>len(filters) - 1\<close> stages, and stage \<open>j - 1\<close>, for \<open>j\<close> from \<open>1\<close> to
  \<open>len(filters) - 1\<close>, is a \<^verbatim>\<open>conv3d_norm_act\<close> from \<open>filters[j]\<close> to
  \<open>filters[j-1]\<close> channels and a block on \<open>filters[j-1]\<close> channels. What \<^verbatim>\<open>forward\<close>
  returns (or raises) on such a network is \<^verbatim>\<open>conv_in\<close>, the encoder stages with
  outputs \<open>outs\<close>, then the decoder stages from \<open>len(filters) - 2\<close> down to \<open>0\<close>, then
  \<^verbatim>\<open>conv_out\<close> and the output activation, where decoder stage \<open>i\<close> applies
  \<^verbatim>\<open>up_layers[i][0]\<close>, interpolates the result with mode \<^verbatim>\<open>trilinear\<close> to the spatial
  size of \<open>outs[i]\<close>, the output of encoder stage \<open>i\<close>, adds \<open>outs[i]\<close> to it with the
  library's addition, and applies \<^verbatim>\<open>up_layers[i][1]\<close>.
\<close>

theorem up_layers_structure_and_skip_connection:
  assumes "UNet3D_init D a = Inr m"
  shows "length (up_layers m) = length (filters a) - 1
     \<and> (\<forall>j. 1 \<le> j \<and> j < length (filters a) \<longrightarrow>
          up_layers m ! (j - 1) =
            [conv3d_norm_act (filters a ! j) (filters a ! (j - 1))
               (fst (get_kernal_size (isotropy a ! j) False)) None
               (snd (get_kernal_size (isotropy a ! j) False))
               (pad_mode a) (act_mode a) (norm_mode a),
             Block (the (block_dict (block_type a))) (filters a ! (j - 1)) (filters a ! (j - 1))
               (pad_mode a) (act_mode a) (norm_mode a)])
     \<and> fst (forward T x m) =
          bindE (external (module_call T (conv_in m) x)) (\<lambda>x0.
          bindE (run_encoder T (take (length (filters a)) (down_layers m)) x0) (\<lambda>outs.
          bindE (skip_decoder T m outs (length (filters a) - 1) (outs ! (length (filters a) - 1)))
            (\<lambda>x3.
          bindE (external (module_call T (conv_out m) x3)) (\<lambda>x4.
          bindE (external (get_functional_act T (output_act m))) (\<lambda>act.
          external (act x4))))))"
proof (intro conjI allI impI)
  note wf = init_well_formed [OF assms]
  show "length (up_layers m) = length (filters a) - 1" by (rule wf(4))
  {
    fix j assume j: "1 \<le> j \<and> j < length (filters a)"
    then have "j - 1 < length (filters a) - 1" and "Suc (j - 1) = j" by linarith+
    with init_up_layers(2) [OF assms, of "j - 1"]
    show "up_layers m ! (j - 1) =
            [conv3d_norm_act (filters a ! j) (filters a ! (j - 1))
               (fst (get_kernal_size (isotropy a ! j) False)) None
               (snd (get_kernal_size (isotropy a ! j) False))
               (pad_mode a) (act_mode a) (norm_mode a),
             Block (the (block_dict (block_type a))) (filters a ! (j - 1)) (filters a ! (j - 1))
               (pad_mode a) (act_mode a) (norm_mode a)]"
      by simp
  }
  have "fst (forward T x m) = sequential_composition T m (length (filters a)) x"
    using forward_sequential_composition [OF wf, of T x] by simp
  also have "\<dots> =
          bindE (external (module_call T (conv_in m) x)) (\<lambda>x0.
          bindE (run_encoder T (take (length (filters a)) (down_layers m)) x0) (\<lambda>outs.
          bindE (skip_decoder T m outs (length (filters a) - 1) (outs ! (length (filters a) - 1)))
            (\<lambda>x3.
          bindE (external (module_call T (conv_out m) x3)) (\<lambda>x4.
          bindE (external (get_functional_act T (output_act m))) (\<lambda>act.
          external (act x4))))))"
    unfolding sequential_composition_def
    by (simp only: run_decoder_skip_decoder [OF order_refl])
  finally show "fst (forward T x m) =
          bindE (external (module_call T (conv_in m) x)) (\<lambda>x0.
          bindE (run_encoder T (take (length (filters a)) (down_layers m)) x0) (\<lambda>outs.
          bindE (skip_decoder T m outs (length (filters a) - 1) (outs ! (length (filters a) - 1)))
            (\<lambda>x3.
          bindE (external (module_call T (conv_out m) x3)) (\<lambda>x4.
          bindE (external (get_functional_act T (output_act m))) (\<lambda>act.
          external (act x4))))))" .
qed

theorem up_layers_structure_and_skip_connection_witness:
  "\<exists>m. UNet3D_init no_raise default_kwargs = Inr m
     \<and> length (up_layers m) = 4
     \<and> up_layers m ! 0 =
          [conv3d_norm_act 36 28 (Tuple3 1 3 3) None (Tuple3 0 1 1) ''replicate'' ''elu'' ''bn'',
           Block residual_block_3d 28 28 ''replicate'' ''elu'' ''bn'']
     \<and> fst (forward shape_lib ((1, 1), [9, 65, 65]) m) = Inr ((1, 1), [9, 65, 65])"
proof -
  from example_init obtain m where h: "UNet3D_init no_raise default_kwargs = Inr m" ..
  have len: "length (filters default_kwargs) = 5" by (simp add: default_kwargs_def)
  have dl: "length (down_layers m) = 5"
    using init_down_layers(1) [OF h] len by simp
  note c = up_layers_structure_and_skip_connection [OF h, of shape_lib "((1, 1), [9, 65, 65])"]
  have j: "1 \<le> (1::nat) \<and> 1 < length (filters default_kwargs)" by (simp add: len)
  from c [THEN conjunct1] have "length (up_layers m) = 4" by (simp add: len)
  moreover from c [THEN conjunct2, THEN conjunct1, rule_format, OF j]
  have "up_layers m ! 0 =
          [conv3d_norm_act 36 28 (Tuple3 1 3 3) None (Tuple3 0 1 1) ''replicate'' ''elu'' ''bn'',
           Block residual_block_3d 28 28 ''replicate'' ''elu'' ''bn'']"
    by (simp add: default_kwargs_def get_kernal_size_def block_dict_def)
  moreover have "skip_decoder shape_lib m (replicate 5 ((1, 1), [9, 65, 65])) 4 ((1, 1), [9, 65, 65])
      = Inr ((1, 1), [9, 65, 65])"
    by (rule skip_decoder_shape_lib) simp
  with c [THEN conjunct2, THEN conjunct2]
  have "fst (forward shape_lib ((1, 1), [9, 65, 65]) m) = Inr ((1, 1), [9, 65, 65])"
    by (simp add: len dl run_encoder_shape_lib)
       (simp add: shape_lib_def external_def)
  ultimately show ?thesis using h by blast
qed


section \<open>Pooling or stride\<close>

text \<open>
  Claim C6. In a constructed network, every encoder stage \<open>i \<ge> 1\<close> has exactly one
  downsampling mechanism, whose factor is not 1: with \<^verbatim>\<open>pooling=True\<close> the stage begins
  with a \<^verbatim>\<open>MaxPool3d\<close> whose kernel size and stride are the downsample factor and its
  convolution has stride 1; with \<^verbatim>\<open>pooling=False\<close> it begins with the identity and
  the stride of its convolution is the downsample factor. Stage \<open>0\<close> has the identity and
  stride 1 under both settings.
\<close>

theorem one_downsampling_mechanism_per_stage:
  assumes "UNet3D_init D a = Inr m"
  shows "(\<forall>i. 1 \<le> i \<and> i < length (filters a) \<longrightarrow>
           get_downsample (isotropy a ! i) \<noteq> IntV 1
         \<and> (pooling m \<longrightarrow> down_layers m ! i = Sequential
              [MaxPool3d (get_downsample (isotropy a ! i)) (get_downsample (isotropy a ! i)),
               conv3d_norm_act (filters a ! (i - 1)) (filters a ! i)
                 (fst (get_kernal_size (isotropy a ! i) False)) (Some (IntV 1))
                 (snd (get_kernal_size (isotropy a ! i) False))
                 (pad_mode a) (act_mode a) (norm_mode a),
               Block (the (block_dict (block_type a))) (filters a ! i) (filters a ! i)
                 (pad_mode a) (act_mode a) (norm_mode a)])
         \<and> (\<not> pooling m \<longrightarrow> down_layers m ! i = Sequential
              [Identity,
               conv3d_norm_act (filters a ! (i - 1)) (filters a ! i)
                 (fst (get_kernal_size (isotropy a ! i) False))
                 (Some (get_downsample (isotropy a ! i)))
                 (snd (get_kernal_size (isotropy a ! i) False))
                 (pad_mode a) (act_mode a) (norm_mode a),
               Block (the (block_dict (block_type a))) (filters a ! i) (filters a ! i)
                 (pad_mode a) (act_mode a) (norm_mode a)]))
     \<and> down_layers m ! 0 = Sequential
          [Identity,
           conv3d_norm_act (filters a ! 0) (filters a ! 0)
             (fst (get_kernal_size (isotropy a ! 0) False)) (Some (IntV 1))
             (snd (get_kernal_size (isotropy a ! 0) False))
             (pad_mode a) (act_mode a) (norm_mode a),
           Block (the (block_dict (block_type a))) (filters a ! 0) (filters a ! 0)
             (pad_mode a) (act_mode a) (norm_mode a)]"
proof -
  from UNet3D_init_Inr [OF assms] have p: "pooling m = pooling_arg a" and ne: "0 < length (filters a)"
    by auto
  have zero: "down_layers m ! 0 = Sequential
          [Identity,
           conv3d_norm_act (filters a ! 0) (filters a ! 0)
             (fst (get_kernal_size (isotropy a ! 0) False)) (Some (IntV 1))
             (snd (get_kernal_size (isotropy a ! 0) False))
             (pad_mode a) (act_mode a) (norm_mode a),
           Block (the (block_dict (block_type a))) (filters a ! 0) (filters a ! 0)
             (pad_mode a) (act_mode a) (norm_mode a)]"
    using init_down_layers(2) [OF assms ne]
    by (simp add: make_pooling_layer_def get_stride_def)
  have later: "get_downsample (isotropy a ! i) \<noteq> IntV 1
         \<and> (pooling m \<longrightarrow> down_layers m ! i = Sequential
              [MaxPool3d (get_downsample (isotropy a ! i)) (get_downsample (isotropy a ! i)),
               conv3d_norm_act (filters a ! (i - 1)) (filters a ! i)
                 (fst (get_kernal_size (isotropy a ! i) False)) (Some (IntV 1))
                 (snd (get_kernal_size (isotropy a ! i) False))
                 (pad_mode a) (act_mode a) (norm_mode a),
               Block (the (block_dict (block_type a))) (filters a ! i) (filters a ! i)
                 (pad_mode a) (act_mode a) (norm_mode a)])
         \<and> (\<not> pooling m \<longrightarrow> down_layers m ! i = Sequential
              [Identity,
               conv3d_norm_act (filters a ! (i - 1)) (filters a ! i)
                 (fst (get_kernal_size (isotropy a ! i) False))
                 (Some (get_downsample (isotropy a ! i)))
                 (snd (get_kernal_size (isotropy a ! i) False))
                 (pad_mode a) (act_mode a) (norm_mode a),
               Block (the (block_dict (block_type a))) (filters a ! i) (filters a ! i)
                 (pad_mode a) (act_mode a) (norm_mode a)])"
    if i: "1 \<le> i \<and> i < length (filters a)" for i
  proof -
    from i have prev: "max 0 (int i - 1) = int (i - 1)" "i - Suc 0 \<noteq> i" by linarith+
    from i have "i < length (filters a)" by simp
    from init_down_layers(2) [OF assms this] show ?thesis
      by (simp add: prev p make_pooling_layer_def get_stride_def get_downsample_def Let_def)
  qed
  from zero later show ?thesis by blast
qed

theorem one_downsampling_mechanism_per_stage_witness:
  "\<exists>m. UNet3D_init no_raise (default_kwargs\<lparr> pooling_arg := True \<rparr>) = Inr m
     \<and> pooling m
     \<and> down_layers m ! 3 = Sequential
          [MaxPool3d (IntV 2) (IntV 2),
           conv3d_norm_act 48 64 (Tuple3 3 3 3) (Some (IntV 1)) (Tuple3 1 1 1)
             ''replicate'' ''elu'' ''bn'',
           Block residual_block_3d 64 64 ''replicate'' ''elu'' ''bn'']
     \<and> down_layers m ! 0 = Sequential
          [Identity,
           conv3d_norm_act 28 28 (Tuple3 1 3 3) (Some (IntV 1)) (Tuple3 0 1 1)
             ''replicate'' ''elu'' ''bn'',
           Block residual_block_3d 28 28 ''replicate'' ''elu'' ''bn'']"
proof -
  let ?a = "default_kwargs\<lparr> pooling_arg := True \<rparr>"
  from example_init_pooling obtain m where h: "UNet3D_init no_raise ?a = Inr m" ..
  from UNet3D_init_Inr [OF h] have p: "pooling m"
    by auto
  have i: "1 \<le> (3::nat) \<and> 3 < length (filters ?a)"
    by (simp add: default_kwargs_def)
  from one_downsampling_mechanism_per_stage [OF h] i p have "down_layers m ! 3 = Sequential
              [MaxPool3d (get_downsample (isotropy ?a ! 3)) (get_downsample (isotropy ?a ! 3)),
               conv3d_norm_act (filters ?a ! (3 - 1)) (filters ?a ! 3)
                 (fst (get_kernal_size (isotropy ?a ! 3) False)) (Some (IntV 1))
                 (snd (get_kernal_size (isotropy ?a ! 3) False))
                 (pad_mode ?a) (act_mode ?a) (norm_mode ?a),
               Block (the (block_dict (block_type ?a))) (filters ?a ! 3) (filters ?a ! 3)
                 (pad_mode ?a) (act_mode ?a) (norm_mode ?a)]"
    by blast
  then have three: "down_layers m ! 3 = Sequential
          [MaxPool3d (IntV 2) (IntV 2),
           conv3d_norm_act 48 64 (Tuple3 3 3 3) (Some (IntV 1)) (Tuple3 1 1 1)
             ''replicate'' ''elu'' ''bn'',
           Block residual_block_3d 64 64 ''replicate'' ''elu'' ''bn'']"
    by (simp add: default_kwargs_def get_kernal_size_def get_downsample_def block_dict_def)
  from one_downsampling_mechanism_per_stage [OF h] have "down_layers m ! 0 = Sequential
          [Identity,
           conv3d_norm_act (filters ?a ! 0) (filters ?a ! 0)
             (fst (get_kernal_size (isotropy ?a ! 0) False)) (Some (IntV 1))
             (snd (get_kernal_size (isotropy ?a ! 0) False))
             (pad_mode ?a) (act_mode ?a) (norm_mode ?a),
           Block (the (block_dict (block_type ?a))) (filters ?a ! 0) (filters ?a ! 0)
             (pad_mode ?a) (act_mode ?a) (norm_mode ?a)]"
    by blast
  then have zero: "down_layers m ! 0 = Sequential
          [Identity,
           conv3d_norm_act 28 28 (Tuple3 1 3 3) (Some (IntV 1)) (Tuple3 0 1 1)
             ''replicate'' ''elu'' ''bn'',
           Block residual_block_3d 28 28 ''replicate'' ''elu'' ''bn'']"
    by (simp add: default_kwargs_def get_kernal_size_def block_dict_def)
  from h p three zero show ?thesis by blast
qed


section \<open>Kernel sizes and downsample factors\<close>

text \<open>
  Claim C7. For the flag of an anisotropic stage the kernel has depth extent 1 and depth
  padding 0, \<open>(1,3,3)\<close> with \<open>(0,1,1)\<close> for a stage and \<open>(1,5,5)\<close> with \<open>(0,2,2)\<close>
  for the input and output layers, and the downsample factor is \<open>(1,2,2)\<close>; for the flag
  of an isotropic stage they are \<open>(3,3,3)\<close> with \<open>(1,1,1)\<close>, \<open>(5,5,5)\<close> with
  \<open>(2,2,2)\<close>, and the factor 2 on all axes.
\<close>

theorem kernel_size_and_downsample_by_isotropy:
  "get_kernal_size False False = (Tuple3 1 3 3, Tuple3 0 1 1)
   \<and> get_kernal_size False True = (Tuple3 1 5 5, Tuple3 0 2 2)
   \<and> get_downsample False = Tuple3 1 2 2
   \<and> get_kernal_size True False = (Tuple3 3 3 3, Tuple3 1 1 1)
   \<and> get_kernal_size True True = (Tuple3 5 5 5, Tuple3 2 2 2)
   \<and> get_downsample True = IntV 2"
  by (simp add: get_kernal_size_def get_downsample_def)



section \<open>Upsampling to the size of the skip tensor\<close>

text \<open>
  Claim C9. \<^verbatim>\<open>_upsample_add(x, y)\<close> interpolates \<open>x\<close> with mode \<^verbatim>\<open>trilinear\<close> to the
  spatial size of \<open>y\<close>, with \<^verbatim>\<open>align_corners\<close> true exactly when \<^verbatim>\<open>pooling\<close> is
  false, and adds \<open>y\<close>. If the interpolation of the library returns what its \<^verbatim>\<open>size\<close>
  argument asks for, the operands of the addition always agree on the spatial axes: a
  check of that before the addition changes nothing.
\<close>

theorem upsample_add_trilinear_to_skip_size:
  "upsample_add T x (Some y) m =
     (bindE (external (F_interpolate T x (drop 2 (tensor_shape T y)) ''trilinear'' (\<not> pooling m)))
        (\<lambda>w. external (tensor_add T w y)), m)
   \<and> (interpolate_honours_size T \<longrightarrow>
        upsample_add (spatially_checked T) x (Some y) m = upsample_add T x (Some y) m)"
proof
  show "upsample_add T x (Some y) m =
     (bindE (external (F_interpolate T x (drop 2 (tensor_shape T y)) ''trilinear'' (\<not> pooling m)))
        (\<lambda>w. external (tensor_add T w y)), m)"
    by (rule upsample_add_Some)
  show "interpolate_honours_size T \<longrightarrow>
        upsample_add (spatially_checked T) x (Some y) m = upsample_add T x (Some y) m"
  proof
    assume hon: "interpolate_honours_size T"
    show "upsample_add (spatially_checked T) x (Some y) m = upsample_add T x (Some y) m"
    proof (cases "F_interpolate T x (drop 2 (tensor_shape T y)) ''trilinear'' (\<not> pooling m)")
      case (Inl e)
      then show ?thesis
        by (simp add: upsample_add_Some spatially_checked_def external_def)
    next
      case (Inr w)
      with hon have "drop 2 (tensor_shape T w) = drop 2 (tensor_shape T y)"
        by (simp add: interpolate_honours_size_def)
      with Inr show ?thesis
        by (simp add: upsample_add_Some spatially_checked_def external_def)
    qed
  qed
qed

theorem upsample_add_trilinear_to_skip_size_witness:
  "interpolate_honours_size shape_lib
   \<and> upsample_add (spatially_checked shape_lib) ((1, 28), [9, 33, 33]) (Some ((1, 28), [9, 65, 65]))
        \<lparr> pooling = False, output_act = ''sigmoid'', depth = 0, conv_in = Identity,
          conv_out = Identity, down_layers = [], up_layers = [] \<rparr>
      = upsample_add shape_lib ((1, 28), [9, 33, 33]) (Some ((1, 28), [9, 65, 65]))
        \<lparr> pooling = False, output_act = ''sigmoid'', depth = 0, conv_in = Identity,
          conv_out = Identity, down_layers = [], up_layers = [] \<rparr>"
proof -
  have h: "interpolate_honours_size shape_lib"
    by (simp add: interpolate_honours_size_def shape_lib_def)
  from upsample_add_trilinear_to_skip_size [of shape_lib "((1, 28), [9, 33, 33])" "((1, 28), [9, 65, 65])"
      "\<lparr> pooling = False, output_act = ''sigmoid'', depth = 0, conv_in = Identity,
          conv_out = Identity, down_layers = [], up_layers = [] \<rparr>"] h
  show ?thesis by blast
qed


section \<open>The assertion of the constructor\<close>

text \<open>
  Claim C10. The constructor raises the \<^verbatim>\<open>AssertionError\<close> of line 52 exactly when
  \<open>len(filters)\<close> and \<open>len(isotropy)\<close> differ: whenever they differ it raises it,
  before anything is built and whatever the other arguments are, and when they are equal
  it does not.
\<close>

theorem UNet3D_init_asserts_equal_lengths:
  "UNet3D_init D a = Inl AssertionError \<longleftrightarrow> length (filters a) \<noteq> length (isotropy a)"
proof
  assume "length (filters a) \<noteq> length (isotropy a)"
  then show "UNet3D_init D a = Inl AssertionError"
    by (simp add: UNet3D_init_def)
next
  assume raised: "UNet3D_init D a = Inl AssertionError"
  show "length (filters a) \<noteq> length (isotropy a)"
  proof
    assume eq: "length (filters a) = length (isotropy a)"
    have "UNet3D_init D a \<noteq> Inl AssertionError"
      unfolding UNet3D_init_def Let_def split_def
      using eq
      by (simp only: simp_thms if_False)
         (intro bindE_not_assert py_index_not_assert new_module_not_assert
            append_loop_not_assert down_stage_not_assert up_stage_not_assert
            model_init_not_assert; simp split: option.splits)
    with raised show False by contradiction
  qed
qed


theorem UNet3D_init_asserts_equal_lengths_witness:
  "UNet3D_init no_raise (default_kwargs\<lparr> filters := [28, 36] \<rparr>) = Inl AssertionError
   \<and> UNet3D_init no_raise default_kwargs \<noteq> Inl AssertionError"
  using UNet3D_init_asserts_equal_lengths [of no_raise "default_kwargs\<lparr> filters := [28, 36] \<rparr>"]
    UNet3D_init_asserts_equal_lengths [of no_raise default_kwargs]
  by (simp add: default_kwargs_def)


section \<open>The forward pass does not write to the model\<close>

text \<open>
  Claim C8. For every model \<open>m\<close> (constructed or not), every tensor library and every
  input, the object that \<^verbatim>\<open>forward\<close> leaves behind is the object it was called on,
  whether it returns or raises: \<^verbatim>\<open>depth\<close>, \<^verbatim>\<open>pooling\<close>, \<^verbatim>\<open>output_act\<close>,
  \<^verbatim>\<open>conv_in\<close>, \<^verbatim>\<open>conv_out\<close>, \<^verbatim>\<open>down_layers\<close> and \<^verbatim>\<open>up_layers\<close>, with every
  layer's kind, kernel size, stride and padding, are the same before and after.
\<close>

theorem forward_leaves_model_unchanged: "snd (forward T x m) = m"
  using preserves_forward [of T x] by (simp add: preserves_def)


section \<open>The whole-model isotropy switch\<close>

text \<open>
  Claim C1. The claim says that the constructor completes for every configuration with
  lists of equal length, a known block type and documented mode strings, in particular
  with \<^verbatim>\<open>is_isotropic=True\<close>. The call \<^verbatim>\<open>UNet3D(is_isotropic=True)\<close>, every other
  argument at its default, raises \<^verbatim>\<open>TypeError\<close> at line 54, whatever the constructors
  of the layers do.
\<close>

theorem UNet3D_init_is_isotropic_raises:
  "UNet3D_init D (default_kwargs\<lparr> is_isotropic := True \<rparr>) = Inl TypeError"
  by (simp add: UNet3D_init_def default_kwargs_def)


section \<open>UNet2D\<close>

text \<open>
  Claim C2. The claim says that the constructor of \<^verbatim>\<open>UNet2D\<close> accepts the documented
  options and builds encoder and decoder stage lists. The call
  \<^verbatim>\<open>UNet2D(block_type=...)\<close> raises \<^verbatim>\<open>TypeError\<close>, and the call \<^verbatim>\<open>UNet2D()\<close>
  returns an object on which the constructor has assigned no attribute.
\<close>

theorem UNet2D_init_takes_no_options:
  "UNet2D_init 0 [''block_type''] = Inl TypeError \<and> UNet2D_init 0 [] = Inr []"
  by (simp add: UNet2D_init_def)

end
